theory Spec2Isabelle
  imports Complex_Main "HOL-Library.Sublist"
begin

section \<open>Python strings\<close>

text \<open>
  Strings are \<^typ>\<open>string\<close>; the model covers ASCII text. Python's \<^verbatim>\<open>str.strip()\<close>,
  \<^verbatim>\<open>str.upper()\<close> and \<^verbatim>\<open>int(str)\<close> also know the Unicode whitespace, case mappings and
  decimal digits beyond ASCII; those, and the configurable limit on the number of digits
  \<^verbatim>\<open>int(str)\<close> accepts, are outside the model.
\<close>

definition is_space :: "char \<Rightarrow> bool" where
  "is_space c = (let n = (of_char c :: nat) in (9 \<le> n \<and> n \<le> 13) \<or> (28 \<le> n \<and> n \<le> 32))"

text \<open>\<^verbatim>\<open>s.strip()\<close>\<close>

definition strip :: "string \<Rightarrow> string" where
  "strip s = rev (dropWhile is_space (rev (dropWhile is_space s)))"

text \<open>
  \<^verbatim>\<open>s.upper()\<close> on ASCII text: the letters a to z are mapped, every other character is
  kept.
\<close>

definition upper_char :: "char \<Rightarrow> char" where
  "upper_char c = (let n = (of_char c :: nat) in if 97 \<le> n \<and> n \<le> 122 then char_of (n - 32) else c)"

definition upper :: "string \<Rightarrow> string" where
  "upper s = map upper_char s"

text \<open>\<^verbatim>\<open>needle in hay\<close> on strings is \<^term>\<open>sublist needle hay\<close>.\<close>

definition digit_val :: "char \<Rightarrow> nat option" where
  "digit_val c = (let n = (of_char c :: nat) in if 48 \<le> n \<and> n \<le> 57 then Some (n - 48) else None)"

text \<open>
  The digits of a decimal literal after its first digit: digits, each optionally preceded
  by one underscore.
\<close>

fun more_digits :: "nat \<Rightarrow> string \<Rightarrow> nat option" where
  "more_digits acc [] = Some acc"
| "more_digits acc (c # cs) =
     (if c = CHR ''_'' then
        (case cs of
           [] \<Rightarrow> None
         | d # ds \<Rightarrow> (case digit_val d of None \<Rightarrow> None | Some v \<Rightarrow> more_digits (10 * acc + v) ds))
      else (case digit_val c of None \<Rightarrow> None | Some v \<Rightarrow> more_digits (10 * acc + v) cs))"

definition py_digits :: "string \<Rightarrow> nat option" where
  "py_digits s =
     (case s of
        [] \<Rightarrow> None
      | c # cs \<Rightarrow> (case digit_val c of None \<Rightarrow> None | Some v \<Rightarrow> more_digits v cs))"

text \<open>\<^verbatim>\<open>int(s)\<close>; \<^term>\<open>None\<close> is \<^verbatim>\<open>ValueError\<close>.\<close>

definition py_int :: "string \<Rightarrow> int option" where
  "py_int s =
     (case strip s of
        [] \<Rightarrow> None
      | c # cs \<Rightarrow>
          if c = CHR ''-'' then map_option (\<lambda>n. - int n) (py_digits cs)
          else if c = CHR ''+'' then map_option int (py_digits cs)
          else map_option int (py_digits (c # cs)))"

section \<open>Exceptions\<close>

datatype exn =
    NoSuchElementException
  | IndexError
  | TimeoutException
  | WebDriverException
  | ValueError string
  | RuntimeError string

section \<open>The page as the driver shows it\<close>

text \<open>
  An element carries what the driver reports about it: its tag name, its attributes
  (\<^verbatim>\<open>get_attribute\<close>), its rendered text (\<^verbatim>\<open>.text\<close>), the two properties of its
  computed style that the strikethrough script reads (\<^term>\<open>None\<close> is JavaScript's
  \<^verbatim>\<open>undefined\<close>), and its child elements in document order.
\<close>

datatype element =
  Element (tag: string) (attrs: "(string \<times> string) list") (elem_text: string)
    (textDecorationLine: "string option") (textDecoration: "string option")
    (children: "element list")

definition get_attribute :: "element \<Rightarrow> string \<Rightarrow> string option" where
  "get_attribute e n = map_of (attrs e) n"

text \<open>The proper descendants of an element in document order, each with its parent.\<close>

fun child_pairs :: "element \<Rightarrow> (element \<times> element) list" where
  "child_pairs (Element t a x l d cs) =
     concat (map (\<lambda>c. (Element t a x l d cs, c) # child_pairs c) cs)"

definition descendants :: "element \<Rightarrow> element list" where
  "descendants e = map snd (child_pairs e)"

text \<open>\<^verbatim>\<open>e.find_elements(By.TAG_NAME, t)\<close>\<close>

definition find_elements_by_tag_name :: "string \<Rightarrow> element \<Rightarrow> element list" where
  "find_elements_by_tag_name t e = filter (\<lambda>d. tag d = t) (descendants e)"

text \<open>\<^verbatim>\<open>e.find_elements(By.NAME, n)\<close>\<close>

definition find_elements_by_name :: "string \<Rightarrow> element \<Rightarrow> element list" where
  "find_elements_by_name n e = filter (\<lambda>d. get_attribute d ''name'' = Some n) (descendants e)"

text \<open>\<^verbatim>\<open>e.find_elements(By.CSS_SELECTOR, "p > c")\<close> for two tag names.\<close>

definition find_elements_by_css_child :: "string \<Rightarrow> string \<Rightarrow> element \<Rightarrow> element list" where
  "find_elements_by_css_child p c e =
     map snd (filter (\<lambda>(par, d). tag par = p \<and> tag d = c) (child_pairs e))"

text \<open>\<^verbatim>\<open>find_element\<close> returns the first match and raises when there is none.\<close>

definition first_or_raise :: "element list \<Rightarrow> exn + element" where
  "first_or_raise es = (case es of [] \<Rightarrow> Inl NoSuchElementException | e # _ \<Rightarrow> Inr e)"

record page =
  current_url :: string
  document :: element

text \<open>\<^verbatim>\<open>driver.find_elements(By.ID, i)\<close> searches the whole document.\<close>

definition driver_find_elements_by_id :: "string \<Rightarrow> page \<Rightarrow> element list" where
  "driver_find_elements_by_id i pg =
     filter (\<lambda>d. get_attribute d ''id'' = Some i) (document pg # descendants (document pg))"

section \<open>Token records\<close>

record Token =
  appid :: int
  gslt :: string
  last_logon :: "string option"
  memo :: string
  steamid :: string
  valid :: bool

section \<open>Strikethrough detection\<close>

text \<open>
  The script \<^verbatim>\<open>(s.textDecorationLine||s.textDecoration||'').includes('line-through')\<close>
  run by \<^verbatim>\<open>execute_script\<close> on the cell.
\<close>

definition js_or :: "string option \<Rightarrow> string \<Rightarrow> string" where
  "js_or a b = (case a of None \<Rightarrow> b | Some s \<Rightarrow> if s = [] then b else s)"

definition computed_decoration :: "element \<Rightarrow> string" where
  "computed_decoration e = js_or (textDecorationLine e) (js_or (textDecoration e) [])"

definition struck_script :: "element \<Rightarrow> bool" where
  "struck_script e = sublist ''line-through'' (computed_decoration e)"

text \<open>
  The body of \<^verbatim>\<open>_cell_not_struck\<close> over the driver's answers to its three requests, each
  of which may be an exception: the descendants tagged \<^verbatim>\<open>s\<close>, those tagged
  \<^verbatim>\<open>strike\<close> (asked for only when the first answer is an empty list), and the script's
  value.
\<close>

definition cell_not_struck_on :: "exn + element list \<Rightarrow> exn + element list \<Rightarrow> exn + bool \<Rightarrow> bool" where
  "cell_not_struck_on ss strikes script =
     (let tagged =
        (case ss of
           Inl _ \<Rightarrow> False
         | Inr (_ # _) \<Rightarrow> True
         | Inr [] \<Rightarrow> (case strikes of Inl _ \<Rightarrow> False | Inr (_ # _) \<Rightarrow> True | Inr [] \<Rightarrow> False))
      in if tagged then False
         else (case script of Inl _ \<Rightarrow> True | Inr struck \<Rightarrow> if struck then False else True))"

text \<open>\<^verbatim>\<open>_cell_not_struck\<close> on a page that answers every request.\<close>

definition cell_not_struck :: "element \<Rightarrow> bool" where
  "cell_not_struck cell =
     cell_not_struck_on (Inr (find_elements_by_tag_name ''s'' cell))
       (Inr (find_elements_by_tag_name ''strike'' cell)) (Inr (struck_script cell))"

section \<open>Reading the steamid of a row\<close>

definition is_mutation_action :: "string \<Rightarrow> bool" where
  "is_mutation_action action =
     (sublist ''resetgstoken'' action \<or> sublist ''deletegsaccount'' action
      \<or> sublist ''updategsmemo'' action)"

text \<open>\<^verbatim>\<open>f.get_attribute("action") or ""\<close>\<close>

definition form_action :: "element \<Rightarrow> string" where
  "form_action f = (case get_attribute f ''action'' of None \<Rightarrow> [] | Some a \<Rightarrow> a)"

text \<open>The loop over the forms of the last cell.\<close>

fun steamid_of_forms :: "element list \<Rightarrow> exn + string" where
  "steamid_of_forms [] = Inr []"
| "steamid_of_forms (f # fs) =
     (if is_mutation_action (form_action f) then
        (case first_or_raise (find_elements_by_name ''steamid'' f) of
           Inl e \<Rightarrow> Inl e
         | Inr inp \<Rightarrow>
             (case get_attribute inp ''value'' of
                None \<Rightarrow> steamid_of_forms fs
              | Some hid \<Rightarrow> if hid \<noteq> [] then Inr hid else steamid_of_forms fs))
      else steamid_of_forms fs)"

text \<open>\<^verbatim>\<open>_extract_steamid_from_row\<close>; \<^verbatim>\<open>tds[-1]\<close> raises on a row without cells.\<close>

definition extract_steamid_from_row :: "element \<Rightarrow> exn + string" where
  "extract_steamid_from_row row =
     (case find_elements_by_tag_name ''td'' row of
        [] \<Rightarrow> Inl IndexError
      | td # tds \<Rightarrow> steamid_of_forms (find_elements_by_tag_name ''form'' (last (td # tds))))"

section \<open>Parsing the token table\<close>

text \<open>
  The body of the loop of \<^verbatim>\<open>_parse_token_table\<close> on one row: \<^term>\<open>Inr None\<close> is
  \<^verbatim>\<open>continue\<close>, \<^term>\<open>Inr (Some t)\<close> appends \<^term>\<open>t\<close>, \<^term>\<open>Inl e\<close> is an exception that
  leaves the loop. The steamid is read before the appid is converted.
\<close>

definition parse_row :: "element \<Rightarrow> exn + Token option" where
  "parse_row r =
     (let tds = find_elements_by_tag_name ''td'' r in
      if length tds < 5 then Inr None
      else
        let appid_txt = strip (elem_text (tds ! 0));
            gslt_cell = tds ! 1;
            last_logon_txt = (let t = strip (elem_text (tds ! 2)) in if t = [] then None else Some t);
            memo_txt = strip (elem_text (tds ! 3));
            gslt_txt = strip (elem_text gslt_cell);
            is_valid = cell_not_struck gslt_cell
        in (case extract_steamid_from_row r of
              Inl e \<Rightarrow> Inl e
            | Inr sid \<Rightarrow>
                (case py_int appid_txt of
                   None \<Rightarrow> Inr None
                 | Some appid_val \<Rightarrow>
                     Inr (Some \<lparr>appid = appid_val, gslt = gslt_txt, last_logon = last_logon_txt,
                                memo = memo_txt, steamid = sid, valid = is_valid\<rparr>))))"

fun parse_rows :: "Token list \<Rightarrow> element list \<Rightarrow> exn + Token list" where
  "parse_rows tokens [] = Inr tokens"
| "parse_rows tokens (r # rs) =
     (case parse_row r of
        Inl e \<Rightarrow> Inl e
      | Inr None \<Rightarrow> parse_rows tokens rs
      | Inr (Some t) \<Rightarrow> parse_rows (tokens @ [t]) rs)"

text \<open>
  The body rows of the first table in the container \<^verbatim>\<open>serverList\<close>, which are the rows
  that \<^verbatim>\<open>_parse_token_table\<close> visits: none without the container or a table.
\<close>

definition table_rows :: "page \<Rightarrow> element list" where
  "table_rows pg =
     (case driver_find_elements_by_id ''serverList'' pg of
        [] \<Rightarrow> []
      | server_list # _ \<Rightarrow>
          (case find_elements_by_tag_name ''table'' server_list of
             [] \<Rightarrow> []
           | table # _ \<Rightarrow> find_elements_by_css_child ''tbody'' ''tr'' table))"

definition parse_token_table :: "page \<Rightarrow> exn + Token list" where
  "parse_token_table pg =
     (case driver_find_elements_by_id ''serverList'' pg of
        [] \<Rightarrow> Inr []
      | server_list # _ \<Rightarrow>
          (case find_elements_by_tag_name ''table'' server_list of
             [] \<Rightarrow> Inr []
           | table # _ \<Rightarrow> parse_rows [] (find_elements_by_css_child ''tbody'' ''tr'' table)))"

section \<open>The loop body over the driver's answers\<close>

text \<open>
  The body of the loop of \<^verbatim>\<open>_parse_token_table\<close> on one row when the driver answers the
  three requests that \<^verbatim>\<open>_cell_not_struck\<close> makes on the token cell with \<open>ss\<close>, \<open>strikes\<close>
  and \<open>script\<close>, each of which may be an exception; all else is as in \<^const>\<open>parse_row\<close>.
\<close>

definition parse_row_on ::
  "exn + element list \<Rightarrow> exn + element list \<Rightarrow> exn + bool \<Rightarrow> element \<Rightarrow> exn + Token option" where
  "parse_row_on ss strikes script r =
     (let tds = find_elements_by_tag_name ''td'' r in
      if length tds < 5 then Inr None
      else
        let appid_txt = strip (elem_text (tds ! 0));
            gslt_cell = tds ! 1;
            last_logon_txt = (let t = strip (elem_text (tds ! 2)) in if t = [] then None else Some t);
            memo_txt = strip (elem_text (tds ! 3));
            gslt_txt = strip (elem_text gslt_cell);
            is_valid = cell_not_struck_on ss strikes script
        in (case extract_steamid_from_row r of
              Inl e \<Rightarrow> Inl e
            | Inr sid \<Rightarrow>
                (case py_int appid_txt of
                   None \<Rightarrow> Inr None
                 | Some appid_val \<Rightarrow>
                     Inr (Some \<lparr>appid = appid_val, gslt = gslt_txt, last_logon = last_logon_txt,
                                memo = memo_txt, steamid = sid, valid = is_valid\<rparr>))))"

section \<open>The browser session\<close>

text \<open>
  The remote site and the browser are the environment of the program. What the driver has
  done so far is a list of events, oldest first; the environment is a function from that
  history to the page the browser shows after it, so it may answer any action with any
  page. A bounded wait for an element is decided on that page. Sleeping changes nothing.
  An element handle denotes the element as it was when it was found.
\<close>

datatype event =
    Get string
  | SendKeys element string
  | Clear element
  | Click element
  | Submit element

record world =
  site :: "event list \<Rightarrow> page"
  environ :: "string \<Rightarrow> string option"

definition MANAGE_URL :: string where
  "MANAGE_URL = ''https://steamcommunity.com/dev/managegameservers''"

definition LOGIN_URL :: string where
  "LOGIN_URL = ''https://store.steampowered.com/login/''"

text \<open>The value of \<^verbatim>\<open>LOGIN_URL.split("//")[1].split("/")[0]\<close>.\<close>

definition login_host :: string where
  "login_host = ''store.steampowered.com''"

text \<open>The keyword arguments of the constructor, defaults filled in.\<close>

record kwargs =
  user_data_dir :: "string option"
  profile_dir :: "string option"
  headless :: bool
  get_guard_code :: "(unit \<Rightarrow> string) option"
  throttle_seconds :: real

definition default_kwargs :: kwargs where
  "default_kwargs =
     \<lparr>user_data_dir = None, profile_dir = None, headless = True, get_guard_code = None,
      throttle_seconds = 1\<rparr>"

text \<open>A manager: its configuration and the handle of the browser it launched.\<close>

record manager =
  config :: kwargs
  driver :: nat

text \<open>\<^verbatim>\<open>driver.find_element(By.CSS_SELECTOR, "button[type='submit']")\<close>\<close>

definition driver_find_submit_buttons :: "page \<Rightarrow> element list" where
  "driver_find_submit_buttons pg =
     filter (\<lambda>d. tag d = ''button'' \<and> get_attribute d ''type'' = Some ''submit'')
       (document pg # descendants (document pg))"

subsection \<open>Login\<close>

definition guard_required_msg :: string where
  "guard_required_msg = ''Steam Guard code required but no get_guard_code callback provided.''"

definition credentials_missing_msg :: string where
  "credentials_missing_msg =
     ''Login required but STEAM_USER/STEAM_PASS not set. Prefer reusing a logged-in Chrome profile via user_data_dir/profile_dir.''"

text \<open>
  The body of the \<^verbatim>\<open>try\<close> block that ends \<^verbatim>\<open>_login_flow\<close>: wait for the guard-code box,
  ask the callback, raise when there is no code, type the code, confirm, wait for the URL.
\<close>

definition guard_step :: "world \<Rightarrow> manager \<Rightarrow> event list \<Rightarrow> (exn + unit) \<times> event list" where
  "guard_step w mgr h =
     (case driver_find_elements_by_id ''authcode'' (site w h) of
        [] \<Rightarrow> (Inl TimeoutException, h)
      | guard_box # _ \<Rightarrow>
          (let code = (case get_guard_code (config mgr) of None \<Rightarrow> None | Some f \<Rightarrow> Some (f ())) in
           if code = None \<or> code = Some [] then (Inl (RuntimeError guard_required_msg), h)
           else
             let h1 = h @ [SendKeys guard_box (the code)] in
             (case first_or_raise (driver_find_elements_by_id ''auth_buttonset_entercode'' (site w h1)) of
                Inl e \<Rightarrow> (Inl e, h1)
              | Inr button \<Rightarrow>
                  let h2 = h1 @ [Click button] in
                  if sublist ''steam'' (current_url (site w h2)) then (Inr (), h2)
                  else (Inl TimeoutException, h2))))"

text \<open>
  \<^verbatim>\<open>_login_flow\<close>. Its last statement is \<^verbatim>\<open>try: ... except Exception: pass\<close> around
  \<^const>\<open>guard_step\<close>, so whatever that block raises, the flow returns.
\<close>

definition login_flow :: "world \<Rightarrow> manager \<Rightarrow> event list \<Rightarrow> (exn + unit) \<times> event list" where
  "login_flow w mgr h =
     (case driver_find_elements_by_id ''input_username'' (site w h) of
        [] \<Rightarrow> (Inr (), h)
      | _ # _ \<Rightarrow>
          (let user = environ w ''STEAM_USER''; pw = environ w ''STEAM_PASS'' in
           if user = None \<or> user = Some [] \<or> pw = None \<or> pw = Some []
           then (Inl (RuntimeError credentials_missing_msg), h)
           else
             (case first_or_raise (driver_find_elements_by_id ''input_username'' (site w h)) of
                Inl e \<Rightarrow> (Inl e, h)
              | Inr u \<Rightarrow>
                  let h1 = h @ [SendKeys u (the user)] in
                  (case first_or_raise (driver_find_elements_by_id ''input_password'' (site w h1)) of
                     Inl e \<Rightarrow> (Inl e, h1)
                   | Inr p \<Rightarrow>
                       let h2 = h1 @ [SendKeys p (the pw)] in
                       (case first_or_raise (driver_find_submit_buttons (site w h2)) of
                          Inl e \<Rightarrow> (Inl e, h2)
                        | Inr b \<Rightarrow>
                            let h3 = h2 @ [Click b] in
                            (case guard_step w mgr h3 of
                               (Inl _, h4) \<Rightarrow> (Inr (), h4)
                             | (Inr _, h4) \<Rightarrow> (Inr (), h4)))))))"

text \<open>\<^verbatim>\<open>_ensure_manage_page\<close>; the wait that ends it raises \<^verbatim>\<open>TimeoutException\<close>.\<close>

definition wait_server_list :: "world \<Rightarrow> event list \<Rightarrow> (exn + unit) \<times> event list" where
  "wait_server_list w h =
     (case driver_find_elements_by_id ''serverList'' (site w h) of
        [] \<Rightarrow> (Inl TimeoutException, h)
      | _ # _ \<Rightarrow> (Inr (), h))"

definition ensure_manage_page :: "world \<Rightarrow> manager \<Rightarrow> event list \<Rightarrow> (exn + unit) \<times> event list" where
  "ensure_manage_page w mgr h =
     (let h1 = h @ [Get MANAGE_URL] in
      if sublist login_host (current_url (site w h1)) then
        (case login_flow w mgr h1 of
           (Inl e, h2) \<Rightarrow> (Inl e, h2)
         | (Inr _, h2) \<Rightarrow> wait_server_list w (h2 @ [Get MANAGE_URL]))
      else wait_server_list w h1)"

subsection \<open>Reading\<close>


text \<open>The comparison \<^verbatim>\<open>t.gslt.upper() == gslt.upper()\<close>.\<close>

definition same_token :: "string \<Rightarrow> Token \<Rightarrow> bool" where
  "same_token g t = (upper (gslt t) = upper g)"

text \<open>\<^verbatim>\<open>is_token_valid\<close>: the flag of the first token that matches, else \<^verbatim>\<open>False\<close>.\<close>

definition is_token_valid ::
  "world \<Rightarrow> manager \<Rightarrow> string \<Rightarrow> event list \<Rightarrow> (exn + bool) \<times> event list" where
  "is_token_valid w mgr g h =
     (case ensure_manage_page w mgr h of
        (Inl e, h1) \<Rightarrow> (Inl e, h1)
      | (Inr _, h1) \<Rightarrow>
          (case parse_token_table (site w h1) of
             Inl e \<Rightarrow> (Inl e, h1)
           | Inr tokens \<Rightarrow>
               (case find (same_token g) tokens of
                  Some t \<Rightarrow> (Inr (valid t), h1)
                | None \<Rightarrow> (Inr False, h1))))"

subsection \<open>Creating a token\<close>








subsection \<open>Regenerating a token\<close>

text \<open>
  The second loop of \<^verbatim>\<open>_find_row_by_token\<close>; \<^verbatim>\<open>tds[1]\<close> raises on a row with fewer than
  two cells.
\<close>

fun row_with_token :: "string \<Rightarrow> element list \<Rightarrow> exn + element option" where
  "row_with_token g [] = Inr None"
| "row_with_token g (r # rs) =
     (let tds = find_elements_by_tag_name ''td'' r in
      if length tds < 2 then Inl IndexError
      else if upper (strip (elem_text (tds ! 1))) = upper g then Inr (Some r)
      else row_with_token g rs)"

text \<open>\<^verbatim>\<open>_find_row_by_token\<close>\<close>

definition find_row_by_token :: "string \<Rightarrow> page \<Rightarrow> exn + element option" where
  "find_row_by_token g pg =
     (case parse_token_table pg of
        Inl e \<Rightarrow> Inl e
      | Inr tokens \<Rightarrow>
          (case find (same_token g) tokens of
             None \<Rightarrow> Inr None
           | Some target \<Rightarrow>
               (case first_or_raise (driver_find_elements_by_id ''serverList'' pg) of
                  Inl e \<Rightarrow> Inl e
                | Inr server_list \<Rightarrow>
                    (case first_or_raise (find_elements_by_tag_name ''table'' server_list) of
                       Inl e \<Rightarrow> Inl e
                     | Inr table \<Rightarrow>
                         row_with_token g (find_elements_by_css_child ''tbody'' ''tr'' table)))))"

fun row_with_steamid :: "string \<Rightarrow> element list \<Rightarrow> exn + element option" where
  "row_with_steamid sid [] = Inr None"
| "row_with_steamid sid (r # rs) =
     (case extract_steamid_from_row r of
        Inl e \<Rightarrow> Inl e
      | Inr s \<Rightarrow> if s = sid then Inr (Some r) else row_with_steamid sid rs)"

text \<open>\<^verbatim>\<open>_find_row_by_steamid\<close>\<close>

definition find_row_by_steamid :: "string \<Rightarrow> page \<Rightarrow> exn + element option" where
  "find_row_by_steamid sid pg =
     (case first_or_raise (driver_find_elements_by_id ''serverList'' pg) of
        Inl e \<Rightarrow> Inl e
      | Inr server_list \<Rightarrow>
          (case first_or_raise (find_elements_by_tag_name ''table'' server_list) of
             Inl e \<Rightarrow> Inl e
           | Inr table \<Rightarrow> row_with_steamid sid (find_elements_by_css_child ''tbody'' ''tr'' table)))"

definition token_not_found_msg :: string where
  "token_not_found_msg = ''Token not found on manage page.''"

definition regen_form_missing_msg :: string where
  "regen_form_missing_msg = ''Could not locate regenerate form for this token.''"

definition post_regen_missing_msg :: string where
  "post_regen_missing_msg = ''Post-regen row not found; page structure may have changed.''"

text \<open>What \<^verbatim>\<open>regenerate_token\<close> does after it has submitted the form.\<close>

definition after_regen :: "world \<Rightarrow> manager \<Rightarrow> string \<Rightarrow> event list \<Rightarrow> (exn + string) \<times> event list" where
  "after_regen w mgr sid h2 =
     (case ensure_manage_page w mgr h2 of
        (Inl e, h3) \<Rightarrow> (Inl e, h3)
      | (Inr _, h3) \<Rightarrow>
          (case find_row_by_steamid sid (site w h3) of
             Inl e \<Rightarrow> (Inl e, h3)
           | Inr None \<Rightarrow>
               (case parse_token_table (site w h3) of
                  Inl e \<Rightarrow> (Inl e, h3)
                | Inr all_tokens \<Rightarrow>
                    (case find (\<lambda>t. steamid t = sid) all_tokens of
                       Some t \<Rightarrow> (Inr (gslt t), h3)
                     | None \<Rightarrow> (Inl (RuntimeError post_regen_missing_msg), h3)))
           | Inr (Some new_row) \<Rightarrow>
               (let tds = find_elements_by_tag_name ''td'' new_row in
                if length tds < 2 then (Inl IndexError, h3)
                else (Inr (strip (elem_text (tds ! 1))), h3))))"

text \<open>\<^verbatim>\<open>regenerate_token\<close>\<close>

definition regenerate_token ::
  "world \<Rightarrow> manager \<Rightarrow> string \<Rightarrow> event list \<Rightarrow> (exn + string) \<times> event list" where
  "regenerate_token w mgr g h =
     (case ensure_manage_page w mgr h of
        (Inl e, h1) \<Rightarrow> (Inl e, h1)
      | (Inr _, h1) \<Rightarrow>
          (case find_row_by_token g (site w h1) of
             Inl e \<Rightarrow> (Inl e, h1)
           | Inr None \<Rightarrow> (Inl (ValueError token_not_found_msg), h1)
           | Inr (Some row) \<Rightarrow>
               (case extract_steamid_from_row row of
                  Inl e \<Rightarrow> (Inl e, h1)
                | Inr sid \<Rightarrow>
                    (case find_elements_by_tag_name ''td'' row of
                       [] \<Rightarrow> (Inl IndexError, h1)
                     | td # tds \<Rightarrow>
                         (case find (\<lambda>f. sublist ''resetgstoken'' (form_action f))
                                 (find_elements_by_tag_name ''form'' (last (td # tds))) of
                            None \<Rightarrow> (Inl (RuntimeError regen_form_missing_msg), h1)
                          | Some regen_form \<Rightarrow> after_regen w mgr sid (h1 @ [Submit regen_form]))))))"

section \<open>The module-level singleton\<close>









section \<open>Example pages\<close>

text \<open>Markup for the concrete pages used below: an element without computed decoration.\<close>

definition el :: "string \<Rightarrow> (string \<times> string) list \<Rightarrow> string \<Rightarrow> element list \<Rightarrow> element" where
  "el t a x cs = Element t a x None None cs"

definition hidden_steamid :: "string \<Rightarrow> element" where
  "hidden_steamid v = el ''input'' [(''type'', ''hidden''), (''name'', ''steamid''), (''value'', v)] [] []"

definition action_form :: "string \<Rightarrow> element list \<Rightarrow> element" where
  "action_form act inputs = el ''form'' [(''action'', act)] [] inputs"

definition reset_url :: string where
  "reset_url = ''https://steamcommunity.com/dev/resetgstoken''"

definition delete_url :: string where
  "delete_url = ''https://steamcommunity.com/dev/deletegsaccount''"

text \<open>A body row of five cells: appid, token cell, last logon, memo, and the forms.\<close>

definition token_row :: "string \<Rightarrow> element \<Rightarrow> string \<Rightarrow> string \<Rightarrow> element list \<Rightarrow> element" where
  "token_row a token_cell logon m forms =
     el ''tr'' [] []
       [el ''td'' [] a [], token_cell, el ''td'' [] logon [], el ''td'' [] m [], el ''td'' [] [] forms]"

definition plain_cell :: "string \<Rightarrow> element" where
  "plain_cell g = el ''td'' [] g []"

definition struck_cell :: "string \<Rightarrow> element" where
  "struck_cell g = el ''td'' [] g [el ''s'' [] g []]"

definition create_form :: element where
  "create_form =
     el ''form'' [(''id'', ''createAccountForm'')] []
       [el ''input'' [(''name'', ''appid'')] [] [], el ''input'' [(''name'', ''memo'')] [] []]"

text \<open>The management page with the given body rows.\<close>

definition manage_page :: "element list \<Rightarrow> page" where
  "manage_page rows =
     \<lparr>current_url = MANAGE_URL,
      document =
        el ''html'' [] []
          [el ''body'' [] []
             [create_form,
              el ''div'' [(''id'', ''serverList'')] []
                [el ''table'' [] [] [el ''tbody'' [] [] rows]]]]\<rparr>"

text \<open>A row whose reset form has no field named \<^verbatim>\<open>steamid\<close>.\<close>

definition row_without_steamid :: element where
  "row_without_steamid =
     token_row ''730'' (plain_cell ''ABC123'') [] ''bot1'' [action_form reset_url []]"

definition row_abc :: element where
  "row_abc = token_row ''730'' (plain_cell ''ABC123'') [] ''bot1'' [action_form reset_url [hidden_steamid ''1'']]"

definition row_def :: element where
  "row_def = token_row ''730'' (struck_cell ''DEF456'') [] ''bot2'' [action_form reset_url [hidden_steamid ''2'']]"

text \<open>A row whose appid cell reads \<^verbatim>\<open>0\<close>.\<close>

definition row_zero :: element where
  "row_zero = token_row ''0'' (plain_cell ''AAA000'') [] ''test'' [action_form reset_url [hidden_steamid ''3'']]"

text \<open>
  A row whose first matching form has an empty \<^verbatim>\<open>steamid\<close> value and whose second has
  a value.
\<close>

definition row_two_forms :: element where
  "row_two_forms =
     token_row ''730'' (plain_cell ''ABC123'') [] ''bot1''
       [action_form reset_url [hidden_steamid []], action_form delete_url [hidden_steamid ''76561'']]"

text \<open>The records of \<^const>\<open>row_abc\<close>, \<^const>\<open>row_def\<close> and \<^const>\<open>row_zero\<close>.\<close>

definition token_abc :: Token where
  "token_abc =
     \<lparr>appid = 730, gslt = ''ABC123'', last_logon = None, memo = ''bot1'', steamid = ''1'', valid = True\<rparr>"

definition token_def :: Token where
  "token_def =
     \<lparr>appid = 730, gslt = ''DEF456'', last_logon = None, memo = ''bot2'', steamid = ''2'', valid = False\<rparr>"

definition token_zero :: Token where
  "token_zero =
     \<lparr>appid = 0, gslt = ''AAA000'', last_logon = None, memo = ''test'', steamid = ''3'', valid = True\<rparr>"

text \<open>
  The value of the field named \<^verbatim>\<open>steamid\<close> of a form, as
  \<^verbatim>\<open>f.find_element(By.NAME, "steamid").get_attribute("value")\<close> reads it where the field
  exists; a missing value reads as the empty string.
\<close>

definition steamid_field_value :: "element \<Rightarrow> string" where
  "steamid_field_value f =
     (case find_elements_by_name ''steamid'' f of
        [] \<Rightarrow> []
      | inp # _ \<Rightarrow> (case get_attribute inp ''value'' of None \<Rightarrow> [] | Some v \<Rightarrow> v))"

definition is_mutation_form :: "element \<Rightarrow> bool" where
  "is_mutation_form f = is_mutation_action (form_action f)"

text \<open>The forms of the last cell of a row that has cells.\<close>

definition trailing_forms :: "element \<Rightarrow> element list" where
  "trailing_forms row =
     find_elements_by_tag_name ''form'' (last (find_elements_by_tag_name ''td'' row))"

subsection \<open>Example sessions\<close>

definition username_input :: element where
  "username_input = el ''input'' [(''id'', ''input_username'')] [] []"

definition password_input :: element where
  "password_input = el ''input'' [(''id'', ''input_password'')] [] []"

definition submit_button :: element where
  "submit_button = el ''button'' [(''type'', ''submit'')] ''Sign in'' []"

definition login_page :: page where
  "login_page =
     \<lparr>current_url = LOGIN_URL,
      document =
        el ''html'' [] []
          [el ''body'' [] [] [el ''form'' [] [] [username_input, password_input, submit_button]]]\<rparr>"

definition guard_page :: page where
  "guard_page =
     \<lparr>current_url = LOGIN_URL,
      document =
        el ''html'' [] []
          [el ''body'' [] []
             [el ''input'' [(''id'', ''authcode'')] [] [],
              el ''div'' [(''id'', ''auth_buttonset_entercode'')] [] []]]\<rparr>"

definition is_click :: "event \<Rightarrow> bool" where
  "is_click e = (case e of Click _ \<Rightarrow> True | _ \<Rightarrow> False)"

definition is_submit :: "event \<Rightarrow> bool" where
  "is_submit e = (case e of Submit _ \<Rightarrow> True | _ \<Rightarrow> False)"

text \<open>
  A site that shows the login page until the submit button is clicked and the guard-code
  challenge from then on, with credentials in the environment.
\<close>

definition guard_world :: world where
  "guard_world =
     \<lparr>site = (\<lambda>h. if list_ex is_click h then guard_page else login_page),
      environ = [''STEAM_USER'' \<mapsto> ''user'', ''STEAM_PASS'' \<mapsto> ''secret'']\<rparr>"

definition typed_and_clicked :: "event list" where
  "typed_and_clicked =
     [SendKeys username_input ''user'', SendKeys password_input ''secret'', Click submit_button]"

text \<open>A manager without a callback, and one whose callback returns the empty string.\<close>

definition plain_manager :: manager where
  "plain_manager = \<lparr>config = default_kwargs, driver = 0\<rparr>"

definition empty_code_manager :: manager where
  "empty_code_manager = \<lparr>config = default_kwargs\<lparr>get_guard_code := Some (\<lambda>_. [])\<rparr>, driver = 0\<rparr>"

text \<open>A site that always shows the management page with the rows \<open>rows\<close>.\<close>

definition static_world :: "element list \<Rightarrow> world" where
  "static_world rows = \<lparr>site = (\<lambda>h. manage_page rows), environ = Map.empty\<rparr>"

text \<open>A row without forms, and a row for a token created with the memo \<^verbatim>\<open>bot9\<close>.\<close>

definition row_no_forms :: element where
  "row_no_forms = token_row ''730'' (plain_cell ''ABC123'') [] ''bot1'' []"






text \<open>
  Token cells without strikethrough tags whose computed style has a decoration: one where
  the browser reports the line property, one where it reports only the shorthand.
\<close>

definition styled_cell :: "string \<Rightarrow> string option \<Rightarrow> string option \<Rightarrow> element" where
  "styled_cell g line shorthand = Element ''td'' [] g line shorthand []"

definition row_line :: element where
  "row_line =
     token_row ''730'' (styled_cell ''GHI789'' (Some ''line-through'') (Some ''line-through solid rgb(0, 0, 0)''))
       [] ''bot3'' [action_form reset_url [hidden_steamid ''4'']]"

definition row_shorthand :: element where
  "row_shorthand =
     token_row ''730'' (styled_cell ''JKL012'' None (Some ''line-through''))
       [] ''bot4'' [action_form reset_url [hidden_steamid ''5'']]"

definition row_underline :: element where
  "row_underline =
     token_row ''730'' (styled_cell ''MNO345'' (Some ''underline'') (Some ''underline''))
       [] ''bot5'' [action_form reset_url [hidden_steamid ''6'']]"

definition token_line :: Token where
  "token_line =
     \<lparr>appid = 730, gslt = ''GHI789'', last_logon = None, memo = ''bot3'', steamid = ''4'', valid = False\<rparr>"

definition token_shorthand :: Token where
  "token_shorthand =
     \<lparr>appid = 730, gslt = ''JKL012'', last_logon = None, memo = ''bot4'', steamid = ''5'', valid = False\<rparr>"

definition token_underline :: Token where
  "token_underline =
     \<lparr>appid = 730, gslt = ''MNO345'', last_logon = None, memo = ''bot5'', steamid = ''6'', valid = True\<rparr>"

text \<open>The record of \<^const>\<open>row_abc\<close> with the flag the other way.\<close>

definition token_abc_struck :: Token where
  "token_abc_struck = token_abc\<lparr>valid := False\<rparr>"


section \<open>Properties of the table parse\<close>

lemma parse_token_table_rows: "parse_token_table pg = parse_rows [] (table_rows pg)"
  by (simp add: parse_token_table_def table_rows_def split: list.splits)

text \<open>A parse that returns has appended, row by row, the record of each row that has one.\<close>

lemma parse_rows_Inr:
  "parse_rows acc rs = Inr ts \<Longrightarrow>
   ts = acc @ concat (map (\<lambda>r. case parse_row r of Inr (Some t) \<Rightarrow> [t] | _ \<Rightarrow> []) rs)"
proof (induction rs arbitrary: acc)
  case Nil
  then show ?case by simp
next
  case (Cons r rs)
  show ?case
  proof (cases "parse_row r")
    case (Inl e)
    with Cons.prems show ?thesis by simp
  next
    case (Inr o1)
    show ?thesis
    proof (cases o1)
      case None
      with Inr Cons.prems have "parse_rows acc rs = Inr ts" by simp
      from Cons.IH [OF this] Inr None show ?thesis by simp
    next
      case (Some t)
      with Inr Cons.prems have "parse_rows (acc @ [t]) rs = Inr ts" by simp
      from Cons.IH [OF this] Inr Some show ?thesis by simp
    qed
  qed
qed

lemma parse_rows_no_raise:
  "parse_rows acc rs = Inr ts \<Longrightarrow> r \<in> set rs \<Longrightarrow> \<exists>t. parse_row r = Inr t"
  by (induction rs arbitrary: acc) (auto split: sum.splits option.splits)

lemma parse_rows_returns:
  "(\<forall>r\<in>set rs. \<exists>t. parse_row r = Inr t) \<Longrightarrow> \<exists>ts. parse_rows acc rs = Inr ts"
  by (induction rs arbitrary: acc) (auto split: sum.splits option.splits)

text \<open>
  C1. The claim: for every page, \<^verbatim>\<open>_parse_token_table\<close> returns a list of records and never
  raises, also on a row whose form targets a mutation endpoint but has no field named
  \<^verbatim>\<open>steamid\<close>. On the page whose table holds a good row and such a row, the lookup of the
  field raises \<^verbatim>\<open>NoSuchElementException\<close>, nothing catches it, and the parse raises it
  instead of returning the good row's record.
\<close>

theorem parse_token_table_raises_without_steamid:
  "parse_token_table (manage_page [row_abc, row_without_steamid]) = Inl NoSuchElementException"
  by code_simp

lemma parse_row_Some:
  assumes "parse_row r = Inr (Some t)"
  shows "5 \<le> length (find_elements_by_tag_name ''td'' r)"
    and "py_int (strip (elem_text (find_elements_by_tag_name ''td'' r ! 0))) = Some (appid t)"
    and "gslt t = strip (elem_text (find_elements_by_tag_name ''td'' r ! 1))"
    and "last_logon t =
           (if strip (elem_text (find_elements_by_tag_name ''td'' r ! 2)) = [] then None
            else Some (strip (elem_text (find_elements_by_tag_name ''td'' r ! 2))))"
    and "memo t = strip (elem_text (find_elements_by_tag_name ''td'' r ! 3))"
    and "valid t = cell_not_struck (find_elements_by_tag_name ''td'' r ! 1)"
    and "extract_steamid_from_row r = Inr (steamid t)"
  using assms
  by (auto simp: parse_row_def Let_def split: if_splits sum.splits option.splits)

text \<open>What the loop body does with a row whose steamid can be read.\<close>

lemma parse_row_fields:
  assumes "extract_steamid_from_row r = Inr sid"
  shows "parse_row r =
     Inr (let tds = find_elements_by_tag_name ''td'' r in
          if length tds < 5 then None
          else (case py_int (strip (elem_text (tds ! 0))) of
                  None \<Rightarrow> None
                | Some n \<Rightarrow>
                    Some \<lparr>appid = n, gslt = strip (elem_text (tds ! 1)),
                          last_logon = (if strip (elem_text (tds ! 2)) = [] then None
                                        else Some (strip (elem_text (tds ! 2)))),
                          memo = strip (elem_text (tds ! 3)), steamid = sid,
                          valid = cell_not_struck (tds ! 1)\<rparr>))"
  using assms by (simp add: parse_row_def Let_def split: option.splits)

lemma parse_row_short: "length (find_elements_by_tag_name ''td'' r) < 5 \<Longrightarrow> parse_row r = Inr None"
  by (simp add: parse_row_def Let_def)

lemma parse_token_table_mem:
  assumes "parse_token_table pg = Inr ts" and "t \<in> set ts"
  shows "\<exists>r\<in>set (table_rows pg). parse_row r = Inr (Some t)"
proof -
  from assms(1) have "parse_rows [] (table_rows pg) = Inr ts"
    by (simp add: parse_token_table_rows)
  from parse_rows_Inr [OF this] assms(2) show ?thesis
    by (auto split: sum.splits option.splits)
qed

text \<open>
  C4. The claim: every body row with at least five cells whose first cell parses as an
  integer yields exactly one record, with that appid, the second cell's text as the token,
  the fourth's as the memo and the third's, or nothing when empty, as the last logon; other
  rows yield none. On a row whose steamid can be read this is \<open>parse_row_fields\<close>. The row
  below has five cells and the first reads 730, yet it yields no record: reading its steamid
  raises, from the loop body and from the parse of the page that holds it.
\<close>

theorem parse_row_raises_on_integer_row:
  "length (find_elements_by_tag_name ''td'' row_without_steamid) = 5
   \<and> py_int (strip (elem_text (find_elements_by_tag_name ''td'' row_without_steamid ! 0))) = Some 730
   \<and> parse_row row_without_steamid = Inl NoSuchElementException
   \<and> parse_token_table (manage_page [row_without_steamid]) = Inl NoSuchElementException"
  by code_simp

text \<open>
  C9. The claim: every record the parse produces has a positive appid. The row whose first
  cell reads \<^verbatim>\<open>0\<close> is parsed into a record with appid 0.
\<close>

theorem parse_token_table_appid_zero:
  "parse_token_table (manage_page [row_zero]) = Inr [token_zero] \<and> appid token_zero = 0"
  by code_simp

text \<open>
  C9, amended: every record the parse produces has the integer that \<^verbatim>\<open>int\<close> reads from the
  first cell of a body row with at least five cells, whatever its sign.
\<close>

theorem parsed_appid_is_first_cell:
  assumes "parse_token_table pg = Inr ts" and "t \<in> set ts"
  shows "\<exists>r\<in>set (table_rows pg).
           5 \<le> length (find_elements_by_tag_name ''td'' r)
           \<and> py_int (strip (elem_text (find_elements_by_tag_name ''td'' r ! 0))) = Some (appid t)"
proof -
  from parse_token_table_mem [OF assms] obtain r
    where "r \<in> set (table_rows pg)" and "parse_row r = Inr (Some t)" by blast
  with parse_row_Some(1,2) [of r t] show ?thesis by blast
qed

theorem parsed_appid_is_first_cell_witness:
  "parse_token_table (manage_page [row_zero]) = Inr [token_zero]
   \<and> token_zero \<in> set [token_zero]
   \<and> (\<exists>r. r \<in> set (table_rows (manage_page [row_zero]))
        \<and> 5 \<le> length (find_elements_by_tag_name ''td'' r)
        \<and> py_int (strip (elem_text (find_elements_by_tag_name ''td'' r ! 0))) = Some (appid token_zero))"
proof -
  have p: "parse_token_table (manage_page [row_zero]) = Inr [token_zero]" by code_simp
  have m: "token_zero \<in> set [token_zero]" by simp
  from parsed_appid_is_first_cell [OF p m] p m show ?thesis by blast
qed

section \<open>Strikethrough detection and the validity flag\<close>

lemma cell_not_struck_on_iff:
  "\<not> cell_not_struck_on ss strikes script \<longleftrightarrow>
     (\<exists>x xs. ss = Inr (x # xs)) \<or> (ss = Inr [] \<and> (\<exists>y ys. strikes = Inr (y # ys))) \<or> script = Inr True"
  by (auto simp: cell_not_struck_on_def split: sum.splits list.splits)

lemma cell_not_struck_iff:
  "\<not> cell_not_struck cell \<longleftrightarrow>
     (\<exists>d\<in>set (descendants cell). tag d = ''s'' \<or> tag d = ''strike'')
     \<or> sublist ''line-through'' (computed_decoration cell)"
proof -
  have a: "(\<exists>x xs. find_elements_by_tag_name t cell = x # xs) \<longleftrightarrow> (\<exists>d\<in>set (descendants cell). tag d = t)" for t
    by (simp add: find_elements_by_tag_name_def neq_Nil_conv [symmetric] filter_empty_conv)
  have b: "find_elements_by_tag_name t cell = [] \<longleftrightarrow> \<not> (\<exists>d\<in>set (descendants cell). tag d = t)" for t
    by (simp add: find_elements_by_tag_name_def filter_empty_conv)
  show ?thesis
    unfolding cell_not_struck_def cell_not_struck_on_iff
    using a [of "''s''"] a [of "''strike''"] b [of "''s''"]
    by (auto simp: struck_script_def)
qed

lemma struck_script_iff:
  "struck_script c \<longleftrightarrow>
     (\<exists>s. textDecorationLine c = Some s \<and> s \<noteq> [] \<and> sublist ''line-through'' s)
     \<or> ((textDecorationLine c = None \<or> textDecorationLine c = Some [])
         \<and> (\<exists>s. textDecoration c = Some s \<and> sublist ''line-through'' s))"
  by (cases "textDecorationLine c"; cases "textDecoration c")
     (auto simp: struck_script_def computed_decoration_def js_or_def)

lemma parse_row_on_static:
  "parse_row r =
     parse_row_on (Inr (find_elements_by_tag_name ''s'' (find_elements_by_tag_name ''td'' r ! 1)))
       (Inr (find_elements_by_tag_name ''strike'' (find_elements_by_tag_name ''td'' r ! 1)))
       (Inr (struck_script (find_elements_by_tag_name ''td'' r ! 1))) r"
  by (simp add: parse_row_def parse_row_on_def cell_not_struck_def Let_def)

lemma parse_row_on_valid:
  "parse_row_on ss strikes script r = Inr (Some t) \<Longrightarrow> valid t = cell_not_struck_on ss strikes script"
  by (auto simp: parse_row_on_def Let_def split: if_splits sum.splits option.splits)

text \<open>
  C5. The flag \<open>valid\<close> of a parsed record is false exactly when its token cell, the second
  cell of the row, has a descendant tagged \<^verbatim>\<open>s\<close> or \<^verbatim>\<open>strike\<close>, or the computed decoration
  of the cell contains \<^verbatim>\<open>line-through\<close>: in the property \<^verbatim>\<open>textDecorationLine\<close> where the
  browser reports it non-empty, else in the shorthand \<^verbatim>\<open>textDecoration\<close>. That parse is the
  loop body over the answers a page gives to the three requests; over any answers, which
  may be exceptions, the flag is false exactly when the search for \<^verbatim>\<open>s\<close> answers with an
  element, or it answers with none and the search for \<^verbatim>\<open>strike\<close> answers with an element,
  or the script answers true; when the tag inspection and the script both raise, the flag
  is true.
\<close>

theorem valid_flag_iff_struck:
  "(parse_row r = Inr (Some t) \<longrightarrow>
      (\<not> valid t \<longleftrightarrow>
         (\<exists>d\<in>set (descendants (find_elements_by_tag_name ''td'' r ! 1)). tag d = ''s'' \<or> tag d = ''strike'')
         \<or> (\<exists>s. textDecorationLine (find_elements_by_tag_name ''td'' r ! 1) = Some s \<and> s \<noteq> []
                \<and> sublist ''line-through'' s)
         \<or> ((textDecorationLine (find_elements_by_tag_name ''td'' r ! 1) = None
              \<or> textDecorationLine (find_elements_by_tag_name ''td'' r ! 1) = Some [])
             \<and> (\<exists>s. textDecoration (find_elements_by_tag_name ''td'' r ! 1) = Some s
                    \<and> sublist ''line-through'' s))))
   \<and> parse_row r =
       parse_row_on (Inr (find_elements_by_tag_name ''s'' (find_elements_by_tag_name ''td'' r ! 1)))
         (Inr (find_elements_by_tag_name ''strike'' (find_elements_by_tag_name ''td'' r ! 1)))
         (Inr (struck_script (find_elements_by_tag_name ''td'' r ! 1))) r
   \<and> (parse_row_on ss strikes script r = Inr (Some t) \<longrightarrow>
        (\<not> valid t \<longleftrightarrow>
           (\<exists>x xs. ss = Inr (x # xs)) \<or> (ss = Inr [] \<and> (\<exists>y ys. strikes = Inr (y # ys)))
           \<or> script = Inr True))
   \<and> (parse_row_on (Inl e1) strikes (Inl e2) r = Inr (Some t) \<longrightarrow> valid t)
   \<and> (parse_row_on (Inr []) (Inl e1) (Inl e2) r = Inr (Some t) \<longrightarrow> valid t)"
proof (intro conjI impI)
  assume "parse_row r = Inr (Some t)"
  then have "valid t = cell_not_struck (find_elements_by_tag_name ''td'' r ! 1)"
    by (rule parse_row_Some(6))
  then show "\<not> valid t \<longleftrightarrow>
         (\<exists>d\<in>set (descendants (find_elements_by_tag_name ''td'' r ! 1)). tag d = ''s'' \<or> tag d = ''strike'')
         \<or> (\<exists>s. textDecorationLine (find_elements_by_tag_name ''td'' r ! 1) = Some s \<and> s \<noteq> []
                \<and> sublist ''line-through'' s)
         \<or> ((textDecorationLine (find_elements_by_tag_name ''td'' r ! 1) = None
              \<or> textDecorationLine (find_elements_by_tag_name ''td'' r ! 1) = Some [])
             \<and> (\<exists>s. textDecoration (find_elements_by_tag_name ''td'' r ! 1) = Some s
                    \<and> sublist ''line-through'' s))"
    by (simp only: cell_not_struck_iff struck_script_def [symmetric] struck_script_iff)
next
  show "parse_row r =
       parse_row_on (Inr (find_elements_by_tag_name ''s'' (find_elements_by_tag_name ''td'' r ! 1)))
         (Inr (find_elements_by_tag_name ''strike'' (find_elements_by_tag_name ''td'' r ! 1)))
         (Inr (struck_script (find_elements_by_tag_name ''td'' r ! 1))) r"
    by (rule parse_row_on_static)
next
  assume "parse_row_on ss strikes script r = Inr (Some t)"
  from parse_row_on_valid [OF this]
  show "\<not> valid t \<longleftrightarrow>
           (\<exists>x xs. ss = Inr (x # xs)) \<or> (ss = Inr [] \<and> (\<exists>y ys. strikes = Inr (y # ys)))
           \<or> script = Inr True"
    by (simp only: cell_not_struck_on_iff)
next
  assume "parse_row_on (Inl e1) strikes (Inl e2) r = Inr (Some t)"
  from parse_row_on_valid [OF this] show "valid t" by (simp add: cell_not_struck_on_def)
next
  assume "parse_row_on (Inr []) (Inl e1) (Inl e2) r = Inr (Some t)"
  from parse_row_on_valid [OF this] show "valid t" by (simp add: cell_not_struck_on_def)
qed

theorem valid_flag_iff_struck_witness:
  "parse_row row_def = Inr (Some token_def) \<and> \<not> valid token_def
   \<and> parse_row row_line = Inr (Some token_line) \<and> \<not> valid token_line
   \<and> parse_row row_shorthand = Inr (Some token_shorthand) \<and> \<not> valid token_shorthand
   \<and> parse_row row_underline = Inr (Some token_underline) \<and> valid token_underline
   \<and> parse_row_on (Inl WebDriverException) (Inl WebDriverException) (Inl WebDriverException) row_abc
       = Inr (Some token_abc) \<and> valid token_abc
   \<and> parse_row_on (Inr []) (Inr []) (Inr True) row_abc = Inr (Some token_abc_struck)
   \<and> \<not> valid token_abc_struck"
proof -
  have p1: "parse_row row_def = Inr (Some token_def)" by code_simp
  have d1: "\<exists>d\<in>set (descendants (find_elements_by_tag_name ''td'' row_def ! 1)). tag d = ''s'' \<or> tag d = ''strike''"
    by code_simp
  from valid_flag_iff_struck [of row_def token_def] p1 d1 have v1: "\<not> valid token_def" by blast
  have p2: "parse_row row_line = Inr (Some token_line)" by code_simp
  have d2: "textDecorationLine (find_elements_by_tag_name ''td'' row_line ! 1) = Some ''line-through''"
    by code_simp
  have s2: "''line-through'' \<noteq> [] \<and> sublist ''line-through'' ''line-through''" by simp
  from valid_flag_iff_struck [of row_line token_line] p2 d2 s2 have v2: "\<not> valid token_line" by blast
  have p3: "parse_row row_shorthand = Inr (Some token_shorthand)" by code_simp
  have d3: "textDecorationLine (find_elements_by_tag_name ''td'' row_shorthand ! 1) = None
      \<and> textDecoration (find_elements_by_tag_name ''td'' row_shorthand ! 1) = Some ''line-through''"
    by code_simp
  from valid_flag_iff_struck [of row_shorthand token_shorthand] p3 d3 s2
  have v3: "\<not> valid token_shorthand" by blast
  have p4: "parse_row row_underline = Inr (Some token_underline)" by code_simp
  have d4: "\<not> (\<exists>d\<in>set (descendants (find_elements_by_tag_name ''td'' row_underline ! 1)). tag d = ''s'' \<or> tag d = ''strike'')"
    by code_simp
  have e4: "textDecorationLine (find_elements_by_tag_name ''td'' row_underline ! 1) = Some ''underline''"
    by code_simp
  have n4: "\<not> sublist ''line-through'' ''underline''" by code_simp
  from valid_flag_iff_struck [of row_underline token_underline] p4 d4 e4 n4
  have v4: "valid token_underline" by auto
  have p5: "parse_row_on (Inl WebDriverException) (Inl WebDriverException) (Inl WebDriverException) row_abc
       = Inr (Some token_abc)" by code_simp
  from valid_flag_iff_struck [of row_abc token_abc _ "Inl WebDriverException" _
      WebDriverException WebDriverException] p5
  have v5: "valid token_abc" by blast
  have p6: "parse_row_on (Inr []) (Inr []) (Inr True) row_abc = Inr (Some token_abc_struck)" by code_simp
  from valid_flag_iff_struck [of row_abc token_abc_struck "Inr []" "Inr []" "Inr True"] p6
  have v6: "\<not> valid token_abc_struck" by blast
  from p1 v1 p2 v2 p3 v3 p4 v4 p5 v5 p6 v6 show ?thesis by blast
qed

section \<open>The steamid of a row\<close>

lemma steamid_of_forms_spec:
  assumes "\<forall>f\<in>set fs. is_mutation_form f \<longrightarrow> find_elements_by_name ''steamid'' f \<noteq> []"
  shows "steamid_of_forms fs =
     Inr (case find (\<lambda>f. is_mutation_form f \<and> steamid_field_value f \<noteq> []) fs of
            Some f \<Rightarrow> steamid_field_value f | None \<Rightarrow> [])"
  using assms
proof (induction fs)
  case Nil
  show ?case by simp
next
  case (Cons f fs)
  then have IH: "steamid_of_forms fs =
     Inr (case find (\<lambda>f. is_mutation_form f \<and> steamid_field_value f \<noteq> []) fs of
            Some f \<Rightarrow> steamid_field_value f | None \<Rightarrow> [])"
    by simp
  show ?case
  proof (cases "is_mutation_action (form_action f)")
    case False
    with IH show ?thesis by (simp add: is_mutation_form_def)
  next
    case True
    with Cons.prems obtain inp rest where f: "find_elements_by_name ''steamid'' f = inp # rest"
      by (auto simp: neq_Nil_conv is_mutation_form_def)
    show ?thesis
    proof (cases "get_attribute inp ''value''")
      case None
      with True f IH show ?thesis
        by (simp add: is_mutation_form_def steamid_field_value_def first_or_raise_def)
    next
      case (Some v)
      with True f IH show ?thesis
        by (simp add: is_mutation_form_def steamid_field_value_def first_or_raise_def)
    qed
  qed
qed

lemma steamid_of_forms_no_match:
  "\<forall>f\<in>set fs. \<not> is_mutation_form f \<Longrightarrow> steamid_of_forms fs = Inr []"
  by (induction fs) (auto simp: is_mutation_form_def)

lemma extract_steamid_forms:
  "find_elements_by_tag_name ''td'' row \<noteq> [] \<Longrightarrow>
   extract_steamid_from_row row = steamid_of_forms (trailing_forms row)"
  by (simp add: extract_steamid_from_row_def trailing_forms_def split: list.splits)

text \<open>
  C6. The claim: the steamid of a row is the value of the field \<^verbatim>\<open>steamid\<close> of the first
  form of the last cell whose action matches a mutation endpoint. In the row below the
  first such form has the empty value and the second has 76561; the code skips the first
  (\<^verbatim>\<open>if hid:\<close>) and returns 76561.
\<close>

theorem extract_steamid_skips_empty_value:
  "extract_steamid_from_row row_two_forms = Inr ''76561''
   \<and> find is_mutation_form (trailing_forms row_two_forms) = Some (action_form reset_url [hidden_steamid []])
   \<and> steamid_field_value (action_form reset_url [hidden_steamid []]) = []"
  by code_simp

text \<open>
  C6, amended: for a row with at least one cell in which every form of the last cell that
  matches a mutation endpoint has a field named \<^verbatim>\<open>steamid\<close>, the steamid is the value of
  that field in the first matching form where the value is not empty, and the empty string
  when there is no such form; it is the empty string in particular when no form matches.
\<close>

theorem extract_steamid_first_nonempty:
  assumes "find_elements_by_tag_name ''td'' row \<noteq> []"
  shows "((\<forall>f\<in>set (trailing_forms row). is_mutation_form f \<longrightarrow> find_elements_by_name ''steamid'' f \<noteq> [])
          \<longrightarrow> extract_steamid_from_row row =
                Inr (case find (\<lambda>f. is_mutation_form f \<and> steamid_field_value f \<noteq> []) (trailing_forms row) of
                       Some f \<Rightarrow> steamid_field_value f | None \<Rightarrow> []))
       \<and> ((\<forall>f\<in>set (trailing_forms row). \<not> is_mutation_form f) \<longrightarrow> extract_steamid_from_row row = Inr [])"
proof (intro conjI impI)
  assume "\<forall>f\<in>set (trailing_forms row). is_mutation_form f \<longrightarrow> find_elements_by_name ''steamid'' f \<noteq> []"
  from steamid_of_forms_spec [OF this] extract_steamid_forms [OF assms]
  show "extract_steamid_from_row row =
          Inr (case find (\<lambda>f. is_mutation_form f \<and> steamid_field_value f \<noteq> []) (trailing_forms row) of
                 Some f \<Rightarrow> steamid_field_value f | None \<Rightarrow> [])"
    by simp
next
  assume "\<forall>f\<in>set (trailing_forms row). \<not> is_mutation_form f"
  from steamid_of_forms_no_match [OF this] extract_steamid_forms [OF assms]
  show "extract_steamid_from_row row = Inr []" by simp
qed

theorem extract_steamid_first_nonempty_witness:
  "extract_steamid_from_row row_two_forms = Inr ''76561'' \<and> extract_steamid_from_row row_no_forms = Inr []"
proof -
  have a: "find_elements_by_tag_name ''td'' row_two_forms \<noteq> []" by code_simp
  have b: "\<forall>f\<in>set (trailing_forms row_two_forms).
             is_mutation_form f \<longrightarrow> find_elements_by_name ''steamid'' f \<noteq> []" by code_simp
  have c: "find (\<lambda>f. is_mutation_form f \<and> steamid_field_value f \<noteq> []) (trailing_forms row_two_forms)
             = Some (action_form delete_url [hidden_steamid ''76561''])" by code_simp
  have d: "steamid_field_value (action_form delete_url [hidden_steamid ''76561'']) = ''76561''" by code_simp
  have a': "find_elements_by_tag_name ''td'' row_no_forms \<noteq> []" by code_simp
  have b': "\<forall>f\<in>set (trailing_forms row_no_forms). \<not> is_mutation_form f" by code_simp
  from extract_steamid_first_nonempty [OF a] b c d
  have 1: "extract_steamid_from_row row_two_forms = Inr ''76561''" by simp
  from extract_steamid_first_nonempty [OF a'] b'
  have 2: "extract_steamid_from_row row_no_forms = Inr []" by blast
  from 1 2 show ?thesis by simp
qed

section \<open>Login\<close>

lemma first_or_raise_Inl: "first_or_raise es = Inl e \<Longrightarrow> e = NoSuchElementException"
  by (auto simp: first_or_raise_def split: list.splits)

lemma login_flow_raises:
  "fst (login_flow w mgr h) = Inl e \<Longrightarrow> e = RuntimeError credentials_missing_msg \<or> e = NoSuchElementException"
  by (auto simp: login_flow_def Let_def split: list.splits if_splits sum.splits prod.splits dest: first_or_raise_Inl)

text \<open>Whatever the site shows and whatever the callback is, the flow never raises the guard-code error.\<close>

lemma login_flow_never_guard_error:
  "fst (login_flow w mgr h) \<noteq> Inl (RuntimeError guard_required_msg)"
  using login_flow_raises [of w mgr h "RuntimeError guard_required_msg"]
  by (auto simp: guard_required_msg_def credentials_missing_msg_def)

text \<open>
  C2. The claim: when the guard-code challenge appears and there is no callback, or the
  callback returns an empty code, the login flow raises the guard-code error. On the site
  below the challenge appears after the click; without a callback, and with one that
  returns the empty string, the \<^verbatim>\<open>try\<close> block raises the error and the flow returns
  normally, since the \<^verbatim>\<open>except Exception: pass\<close> of the same block catches it.
\<close>

theorem login_flow_swallows_guard_error:
  "login_flow guard_world plain_manager [] = (Inr (), typed_and_clicked)
   \<and> driver_find_elements_by_id ''authcode'' (site guard_world typed_and_clicked) \<noteq> []
   \<and> get_guard_code (config plain_manager) = None
   \<and> guard_step guard_world plain_manager typed_and_clicked
       = (Inl (RuntimeError guard_required_msg), typed_and_clicked)
   \<and> login_flow guard_world empty_code_manager [] = (Inr (), typed_and_clicked)
   \<and> guard_step guard_world empty_code_manager typed_and_clicked
       = (Inl (RuntimeError guard_required_msg), typed_and_clicked)"
  by code_simp

section \<open>The validity query\<close>

lemma is_token_valid_after:
  assumes "ensure_manage_page w mgr h = (Inr (), h1)" and "parse_token_table (site w h1) = Inr ts"
  shows "is_token_valid w mgr g h =
           (Inr (case find (same_token g) ts of Some t \<Rightarrow> valid t | None \<Rightarrow> False), h1)"
  using assms by (simp add: is_token_valid_def split: option.splits)

text \<open>
  C7. The claim: \<^verbatim>\<open>is_token_valid(g)\<close> returns the flag of the record whose token matches
  \<open>g\<close> without regard to case and, when no record matches, returns false and does not
  raise. Where the table parse returns, the code does so (\<open>is_token_valid_after\<close>). On the
  page below the page is ready and no row's token is \<^verbatim>\<open>ZZZ999\<close>, yet the query raises the
  \<^verbatim>\<open>NoSuchElementException\<close> of the table parse instead of returning false.
\<close>

theorem is_token_valid_raises_parse_error:
  "map (\<lambda>r. strip (elem_text (find_elements_by_tag_name ''td'' r ! 1)))
       (table_rows (manage_page [row_abc, row_without_steamid])) = [''ABC123'', ''ABC123'']
   \<and> upper ''ZZZ999'' \<noteq> upper ''ABC123''
   \<and> ensure_manage_page (static_world [row_abc, row_without_steamid]) plain_manager []
       = (Inr (), [Get MANAGE_URL])
   \<and> is_token_valid (static_world [row_abc, row_without_steamid]) plain_manager ''ZZZ999'' []
       = (Inl NoSuchElementException, [Get MANAGE_URL])"
  by code_simp

section \<open>Form submissions in the history\<close>

text \<open>Loading the management page, logging in included, submits no form by script.\<close>

lemma wait_server_list_history: "snd (wait_server_list w h) = h"
  by (simp add: wait_server_list_def split: list.splits)

lemma guard_step_no_submit: "filter is_submit (snd (guard_step w mgr h)) = filter is_submit h"
  by (simp add: guard_step_def Let_def is_submit_def split: list.splits sum.splits)

lemma login_flow_no_submit: "filter is_submit (snd (login_flow w mgr h)) = filter is_submit h"
proof -
  have g: "guard_step w mgr h3 = (r, h4) \<Longrightarrow> filter is_submit h4 = filter is_submit h3" for h3 r h4
    using guard_step_no_submit [of w mgr h3] by simp
  show ?thesis
    by (auto simp: login_flow_def Let_def is_submit_def split: list.splits sum.splits prod.splits dest!: g)
qed

lemma ensure_manage_page_no_submit:
  "filter is_submit (snd (ensure_manage_page w mgr h)) = filter is_submit h"
proof -
  have l: "login_flow w mgr h1 = (r, h2) \<Longrightarrow> filter is_submit h2 = filter is_submit h1" for h1 r h2
    using login_flow_no_submit [of w mgr h1] by simp
  show ?thesis
    by (auto simp: ensure_manage_page_def Let_def wait_server_list_history is_submit_def
        split: sum.splits prod.splits dest!: l)
qed








section \<open>Regenerating a token that is not in the table\<close>

text \<open>
  When the page is there and no body row's token cell matches \<open>g\<close>, \<^verbatim>\<open>regenerate_token\<close>
  submits nothing and fails: with the token-not-found error when the table parse returns,
  with the exception of the parse otherwise.
\<close>

lemma regenerate_token_absent:
  assumes e: "ensure_manage_page w mgr h = (Inr (), h1)"
      and n: "\<forall>r\<in>set (table_rows (site w h1)).
                2 \<le> length (find_elements_by_tag_name ''td'' r)
                \<longrightarrow> upper (strip (elem_text (find_elements_by_tag_name ''td'' r ! 1))) \<noteq> upper g"
  shows "regenerate_token w mgr g h =
           (case parse_token_table (site w h1) of
              Inl x \<Rightarrow> (Inl x, h1)
            | Inr ts \<Rightarrow> (Inl (ValueError token_not_found_msg), h1))"
    and "filter is_submit h1 = filter is_submit h"
proof -
  show "filter is_submit h1 = filter is_submit h"
    using ensure_manage_page_no_submit [of w mgr h] e by simp
  show "regenerate_token w mgr g h =
           (case parse_token_table (site w h1) of
              Inl x \<Rightarrow> (Inl x, h1)
            | Inr ts \<Rightarrow> (Inl (ValueError token_not_found_msg), h1))"
  proof (cases "parse_token_table (site w h1)")
    case (Inl x)
    with e show ?thesis by (simp add: regenerate_token_def find_row_by_token_def)
  next
    case (Inr ts)
    have "\<not> same_token g t" if "t \<in> set ts" for t
    proof -
      from parse_token_table_mem [OF Inr that] obtain r where
        r: "r \<in> set (table_rows (site w h1))" and p: "parse_row r = Inr (Some t)" by blast
      from parse_row_Some(1) [OF p] have "2 \<le> length (find_elements_by_tag_name ''td'' r)" by simp
      with n r have "upper (strip (elem_text (find_elements_by_tag_name ''td'' r ! 1))) \<noteq> upper g"
        by blast
      with parse_row_Some(3) [OF p] show ?thesis by (simp add: same_token_def)
    qed
    then have "find (same_token g) ts = None" by (simp add: find_None_iff)
    with e Inr show ?thesis by (simp add: regenerate_token_def find_row_by_token_def)
  qed
qed

text \<open>
  C8. The claim: when no row's token matches \<open>g\<close>, \<^verbatim>\<open>regenerate_token(g)\<close> fails with the
  token-not-found error and submits nothing. On the page below no row's token matches
  \<^verbatim>\<open>ZZZ999\<close> and nothing is submitted, but the error is the \<^verbatim>\<open>NoSuchElementException\<close> that
  the table parse raises on the row whose form has no field named \<^verbatim>\<open>steamid\<close>.
\<close>

theorem regenerate_token_raises_parse_error:
  "map (\<lambda>r. strip (elem_text (find_elements_by_tag_name ''td'' r ! 1)))
       (table_rows (manage_page [row_abc, row_without_steamid])) = [''ABC123'', ''ABC123'']
   \<and> upper ''ZZZ999'' \<noteq> upper ''ABC123''
   \<and> ensure_manage_page (static_world [row_abc, row_without_steamid]) plain_manager []
       = (Inr (), [Get MANAGE_URL])
   \<and> regenerate_token (static_world [row_abc, row_without_steamid]) plain_manager ''ZZZ999'' []
       = (Inl NoSuchElementException, [Get MANAGE_URL])"
  by code_simp

section \<open>The shared manager\<close>



section \<open>When the table parse returns and when it raises\<close>

text \<open>
  On a table in which the steamid of every row with at least five cells can be read, the
  parse returns, in row order, the record of each row that has one; and the only exception
  the parse ever raises is the \<^verbatim>\<open>NoSuchElementException\<close> of a row with at least five cells
  whose steamid cannot be read.
\<close>

lemma parse_token_table_well_formed:
  assumes "\<forall>r\<in>set (table_rows pg).
             5 \<le> length (find_elements_by_tag_name ''td'' r) \<longrightarrow> (\<exists>sid. extract_steamid_from_row r = Inr sid)"
  shows "parse_token_table pg =
           Inr (concat (map (\<lambda>r. case parse_row r of Inr (Some t) \<Rightarrow> [t] | _ \<Rightarrow> []) (table_rows pg)))"
proof -
  have "\<exists>t. parse_row r = Inr t" if "r \<in> set (table_rows pg)" for r
  proof (cases "length (find_elements_by_tag_name ''td'' r) < 5")
    case True
    then show ?thesis by (simp add: parse_row_short)
  next
    case False
    with assms that obtain sid where "extract_steamid_from_row r = Inr sid" by auto
    from parse_row_fields [OF this] show ?thesis by blast
  qed
  then have "\<exists>ts. parse_rows [] (table_rows pg) = Inr ts"
    by (intro parse_rows_returns) blast
  then obtain ts where ts: "parse_rows [] (table_rows pg) = Inr ts" by blast
  from parse_rows_Inr [OF ts] ts show ?thesis by (simp add: parse_token_table_rows)
qed

lemma steamid_of_forms_Inl: "steamid_of_forms fs = Inl e \<Longrightarrow> e = NoSuchElementException"
  by (induction fs) (auto split: if_splits sum.splits option.splits dest: first_or_raise_Inl)

lemma parse_rows_Inl:
  "parse_rows acc rs = Inl e \<Longrightarrow> \<exists>r\<in>set rs. parse_row r = Inl e"
  by (induction rs arbitrary: acc) (auto split: sum.splits option.splits)

lemma parse_row_Inl:
  assumes "parse_row r = Inl e"
  shows "5 \<le> length (find_elements_by_tag_name ''td'' r) \<and> extract_steamid_from_row r = Inl e"
  using assms by (auto simp: parse_row_def Let_def split: if_splits sum.splits option.splits)

lemma parse_token_table_raises_only:
  assumes "parse_token_table pg = Inl e"
  shows "e = NoSuchElementException
       \<and> (\<exists>r\<in>set (table_rows pg). 5 \<le> length (find_elements_by_tag_name ''td'' r)
             \<and> extract_steamid_from_row r = Inl NoSuchElementException)"
proof -
  from assms have "parse_rows [] (table_rows pg) = Inl e" by (simp add: parse_token_table_rows)
  from parse_rows_Inl [OF this] obtain r where
    r: "r \<in> set (table_rows pg)" and p: "parse_row r = Inl e" by blast
  from parse_row_Inl [OF p] have l: "5 \<le> length (find_elements_by_tag_name ''td'' r)"
    and x: "extract_steamid_from_row r = Inl e" by simp_all
  from l have "find_elements_by_tag_name ''td'' r \<noteq> []" by auto
  from extract_steamid_forms [OF this] x have "steamid_of_forms (trailing_forms r) = Inl e" by simp
  then have "e = NoSuchElementException" by (rule steamid_of_forms_Inl)
  with r l x show ?thesis by blast
qed

end
